theory Spec2Isabelle
  imports Main "HOL-Library.Word"
begin

unbundle bit_operations_syntax

section \<open>The MCP24LC512 EEPROM driver\<close>

text \<open>
  The driver (\<^verbatim>\<open>MCP24LC512.cpp\<close>, \<^verbatim>\<open>MCP24LC512.h\<close>) is a thin client of two
  interfaces of the Arduino core that are not part of the repository: the digital pins
  (\<^verbatim>\<open>pinMode\<close>, \<^verbatim>\<open>digitalWrite\<close>) and the two-wire bus class \<^verbatim>\<open>TwoWire\<close>.
  Every method is a fixed sequence of calls to these primitives. The embedding therefore
  has three layers:
  \<^item> the world is the list of primitive calls made so far, oldest first;
  \<^item> what a primitive returns is a parameter, the \<open>platform\<close>: one answer function per
    primitive with a result, reading the calls made before it;
  \<^item> each driver method is a function from the device object and the world to its return
    value, the device object and the world after it.
\<close>

subsection \<open>The primitives the driver calls\<close>

text \<open>
  A bus object is known by its identity only. \<open>Wire\<close> is the bus object the core
  library defines for the primary two-wire bus.
\<close>

datatype TwoWire = Bus nat

definition Wire :: TwoWire where
  "Wire = Bus 0"

datatype pin_mode = INPUT | OUTPUT | INPUT_PULLUP

datatype level = LOW | HIGH

text \<open>
  One constructor per primitive, with the arguments of the call. \<open>Delay\<close> is the
  core's \<^verbatim>\<open>delay(ms)\<close>: the driver never calls it, its callers may.
\<close>

datatype call =
    PinMode "8 word" pin_mode
  | DigitalWrite "8 word" level
  | Delay nat
  | WireBegin TwoWire
  | WireEnd TwoWire
  | BeginTransmission TwoWire "8 word"
  | WireWrite TwoWire "8 word"
  | EndTransmission TwoWire
  | RequestFrom TwoWire "8 word" nat
  | WireRead TwoWire

type_synonym world = "call list"

text \<open>
  The results of the primitives, as functions of the calls made before the one that is
  answered. \<^verbatim>\<open>TwoWire::read\<close> returns an \<^verbatim>\<open>int\<close>: the byte received, or a negative
  value when there is none. \<^verbatim>\<open>TwoWire::endTransmission\<close> returns a status byte, zero
  for success.
\<close>

record platform =
  begin_result :: "world \<Rightarrow> TwoWire \<Rightarrow> bool"
  end_result :: "world \<Rightarrow> TwoWire \<Rightarrow> bool"
  write_result :: "world \<Rightarrow> TwoWire \<Rightarrow> 8 word \<Rightarrow> nat"
  endTransmission_result :: "world \<Rightarrow> TwoWire \<Rightarrow> 8 word"
  requestFrom_result :: "world \<Rightarrow> TwoWire \<Rightarrow> 8 word \<Rightarrow> nat \<Rightarrow> nat"
  read_result :: "world \<Rightarrow> TwoWire \<Rightarrow> int"

definition pinMode :: "8 word \<Rightarrow> pin_mode \<Rightarrow> world \<Rightarrow> world" where
  "pinMode pin mode w = w @ [PinMode pin mode]"

definition digitalWrite :: "8 word \<Rightarrow> level \<Rightarrow> world \<Rightarrow> world" where
  "digitalWrite pin val w = w @ [DigitalWrite pin val]"

definition delay :: "nat \<Rightarrow> world \<Rightarrow> world" where
  "delay ms w = w @ [Delay ms]"

definition TwoWire_begin :: "platform \<Rightarrow> TwoWire \<Rightarrow> world \<Rightarrow> bool \<times> world" where
  "TwoWire_begin p wire w = (begin_result p w wire, w @ [WireBegin wire])"

definition TwoWire_end :: "platform \<Rightarrow> TwoWire \<Rightarrow> world \<Rightarrow> bool \<times> world" where
  "TwoWire_end p wire w = (end_result p w wire, w @ [WireEnd wire])"

definition TwoWire_beginTransmission :: "TwoWire \<Rightarrow> 8 word \<Rightarrow> world \<Rightarrow> world" where
  "TwoWire_beginTransmission wire address w = w @ [BeginTransmission wire address]"

definition TwoWire_write :: "platform \<Rightarrow> TwoWire \<Rightarrow> 8 word \<Rightarrow> world \<Rightarrow> nat \<times> world" where
  "TwoWire_write p wire b w = (write_result p w wire b, w @ [WireWrite wire b])"

definition TwoWire_endTransmission :: "platform \<Rightarrow> TwoWire \<Rightarrow> world \<Rightarrow> 8 word \<times> world" where
  "TwoWire_endTransmission p wire w =
     (endTransmission_result p w wire, w @ [EndTransmission wire])"

definition TwoWire_requestFrom ::
  "platform \<Rightarrow> TwoWire \<Rightarrow> 8 word \<Rightarrow> nat \<Rightarrow> world \<Rightarrow> nat \<times> world" where
  "TwoWire_requestFrom p wire address len w =
     (requestFrom_result p w wire address len, w @ [RequestFrom wire address len])"

definition TwoWire_read :: "platform \<Rightarrow> TwoWire \<Rightarrow> world \<Rightarrow> int \<times> world" where
  "TwoWire_read p wire w = (read_result p w wire, w @ [WireRead wire])"

subsection \<open>The device object\<close>

text \<open>
  The three private fields of the class. The constructor assigns none of them, so
  \<open>p_wire\<close> is \<open>None\<close> until \<^verbatim>\<open>begin\<close> binds a bus; a method that follows the
  pointer before that has no defined behaviour and the model returns \<open>None\<close> for it.
\<close>

record MCP24LC512 =
  p_address :: "8 word"
  p_wp :: "8 word"
  p_wire :: "TwoWire option"

definition Default :: "8 word" where
  "Default = 0x50"

definition None_pin :: "8 word" where
  "None_pin = 0xFF"

subsection \<open>The methods\<close>

text \<open>\<^verbatim>\<open>bool begin(TwoWire& wire, const uint8_t address, const uint8_t wp)\<close>\<close>

definition begin_wire ::
  "platform \<Rightarrow> TwoWire \<Rightarrow> 8 word \<Rightarrow> 8 word \<Rightarrow> MCP24LC512 \<Rightarrow> world
     \<Rightarrow> (bool \<times> MCP24LC512 \<times> world) option" where
  "begin_wire p wire address wp dev w =
     (let dev1 = dev\<lparr>p_wire := Some wire\<rparr>;
          dev2 = dev1\<lparr>p_address := address\<rparr>;
          dev3 = dev2\<lparr>p_wp := wp\<rparr>;
          w1 = pinMode (p_wp dev3) OUTPUT w
      in case p_wire dev3 of
           None \<Rightarrow> None
         | Some bus \<Rightarrow>
             (let (ok, w2) = TwoWire_begin p bus w1 in Some (ok, dev3, w2)))"

text \<open>\<^verbatim>\<open>bool begin(const uint8_t address, const uint8_t wp)\<close>\<close>

definition begin_default ::
  "platform \<Rightarrow> 8 word \<Rightarrow> 8 word \<Rightarrow> MCP24LC512 \<Rightarrow> world
     \<Rightarrow> (bool \<times> MCP24LC512 \<times> world) option" where
  "begin_default p address wp dev w = begin_wire p Wire address wp dev w"

text \<open>\<^verbatim>\<open>bool end()\<close>\<close>

definition end_device ::
  "platform \<Rightarrow> MCP24LC512 \<Rightarrow> world \<Rightarrow> (bool \<times> MCP24LC512 \<times> world) option" where
  "end_device p dev w =
     (case p_wire dev of
        None \<Rightarrow> None
      | Some bus \<Rightarrow> (let (ok, w1) = TwoWire_end p bus w in Some (ok, dev, w1)))"

text \<open>
  \<^verbatim>\<open>bool write(const uint16_t address, const uint8_t data)\<close>. The bus takes bytes:
  \<^verbatim>\<open>address >> 8\<close> and \<^verbatim>\<open>address\<close> are cut to their low eight bits on the way in.
\<close>

definition write_device ::
  "platform \<Rightarrow> 16 word \<Rightarrow> 8 word \<Rightarrow> MCP24LC512 \<Rightarrow> world
     \<Rightarrow> (bool \<times> MCP24LC512 \<times> world) option" where
  "write_device p address data dev w =
     (case p_wire dev of
        None \<Rightarrow> None
      | Some bus \<Rightarrow>
          (let w1 = TwoWire_beginTransmission bus (p_address dev) w;
               (n1, w2) = TwoWire_write p bus (ucast (drop_bit 8 address)) w1;
               (n2, w3) = TwoWire_write p bus (ucast address) w2;
               (n3, w4) = TwoWire_write p bus data w3;
               (status, w5) = TwoWire_endTransmission p bus w4
           in Some (status = 0, dev, w5)))"

text \<open>
  \<^verbatim>\<open>uint8_t read(const uint16_t address)\<close>. The \<^verbatim>\<open>int\<close> that the bus read returns
  is converted to the \<^verbatim>\<open>uint8_t\<close> return type, that is, taken modulo 256.
\<close>

definition read_device ::
  "platform \<Rightarrow> 16 word \<Rightarrow> MCP24LC512 \<Rightarrow> world \<Rightarrow> (8 word \<times> MCP24LC512 \<times> world) option" where
  "read_device p address dev w =
     (case p_wire dev of
        None \<Rightarrow> None
      | Some bus \<Rightarrow>
          (let w1 = TwoWire_beginTransmission bus (p_address dev) w;
               (n1, w2) = TwoWire_write p bus (ucast (drop_bit 8 address)) w1;
               (n2, w3) = TwoWire_write p bus (ucast address) w2;
               (status, w4) = TwoWire_endTransmission p bus w3;
               (n3, w5) = TwoWire_requestFrom p bus (p_address dev) 1 w4;
               (r, w6) = TwoWire_read p bus w5
           in Some (word_of_int r, dev, w6)))"

text \<open>\<^verbatim>\<open>void writeProtect(const bool on)\<close>\<close>

definition writeProtect :: "bool \<Rightarrow> MCP24LC512 \<Rightarrow> world \<Rightarrow> (unit \<times> MCP24LC512 \<times> world) option" where
  "writeProtect on dev w =
     (let w1 = digitalWrite (p_wp dev) (if on then HIGH else LOW) w
      in Some ((), dev, w1))"

subsection \<open>A caller: requests in sequence\<close>

text \<open>
  A program that uses an initialised device issues the four methods other than
  \<^verbatim>\<open>begin\<close> in some order. \<open>perform_all\<close> runs such a list against the device,
  threading the device object and the world through, and stops at a call without
  defined behaviour.
\<close>

datatype request =
    Write "16 word" "8 word"
  | Read "16 word"
  | WriteProtect bool
  | End

fun perform :: "platform \<Rightarrow> request \<Rightarrow> MCP24LC512 \<Rightarrow> world \<Rightarrow> (MCP24LC512 \<times> world) option" where
  "perform p (Write address data) dev w = map_option snd (write_device p address data dev w)"
| "perform p (Read address) dev w = map_option snd (read_device p address dev w)"
| "perform p (WriteProtect on) dev w = map_option snd (writeProtect on dev w)"
| "perform p End dev w = map_option snd (end_device p dev w)"

fun perform_all ::
  "platform \<Rightarrow> request list \<Rightarrow> MCP24LC512 \<Rightarrow> world \<Rightarrow> (MCP24LC512 \<times> world) option" where
  "perform_all p [] dev w = Some (dev, w)"
| "perform_all p (r # rs) dev w =
     (case perform p r dev w of
        None \<Rightarrow> None
      | Some (dev1, w1) \<Rightarrow> perform_all p rs dev1 w1)"

text \<open>Write, wait, read back: the caller's side of the header's note on the delay.\<close>

definition write_wait_read ::
  "platform \<Rightarrow> 16 word \<Rightarrow> 8 word \<Rightarrow> nat \<Rightarrow> MCP24LC512 \<Rightarrow> world \<Rightarrow> (bool \<times> 8 word) option" where
  "write_wait_read p address data ms dev w =
     (case write_device p address data dev w of
        None \<Rightarrow> None
      | Some (ok, dev1, w1) \<Rightarrow>
          (case read_device p address dev1 (delay ms w1) of
             None \<Rightarrow> None
           | Some (v, dev2, w2) \<Rightarrow> Some (ok, v)))"

subsection \<open>The memory chip on the bus\<close>

text \<open>
  Modelled from the spec: the 24LC512 chip and the bus it sits on are hardware, and the
  \<^verbatim>\<open>TwoWire\<close> class that talks to them is not part of the repository. The
  specification describes them as follows: a transaction is opened for a bus address, takes bytes and is closed with a
  status, zero when the bytes were acknowledged; the chip takes a 16-bit cell address
  as two bytes, high byte first, followed by the data; a read request returns bytes from
  the addressed cell; after a write the chip acknowledges nothing for 5 ms; while
  the write-protect line is high the chip acknowledges a write and stores nothing; the
  byte read of the bus answers -1 when no byte has arrived.
\<close>

record wiring =
  chip_bus :: TwoWire
  chip_address :: "8 word"
  chip_wp :: "8 word"

record chip =
  cells :: "16 word \<Rightarrow> 8 word"
  pointer :: "16 word"
  busy :: nat
  wp_high :: bool
  started :: bool
  pending :: "(8 word \<times> 8 word list) option"
  received :: "8 word list"

definition write_cycle_ms :: nat where
  "write_cycle_ms = 5"

definition power_on :: "(16 word \<Rightarrow> 8 word) \<Rightarrow> chip" where
  "power_on content =
     \<lparr>cells = content, pointer = 0, busy = 0, wp_high = False, started = False,
      pending = None, received = []\<rparr>"

definition acknowledges :: "wiring \<Rightarrow> chip \<Rightarrow> 8 word \<Rightarrow> bool" where
  "acknowledges wr st target \<longleftrightarrow> started st \<and> target = chip_address wr \<and> busy st = 0"

definition cell_address :: "8 word \<Rightarrow> 8 word \<Rightarrow> 16 word" where
  "cell_address hi lo = push_bit 8 (ucast hi) OR ucast lo"

fun store :: "8 word list \<Rightarrow> chip \<Rightarrow> chip" where
  "store [] st = st"
| "store (d # ds) st =
     store ds (st\<lparr>cells := (cells st)(pointer st := d), pointer := pointer st + 1,
                 busy := write_cycle_ms\<rparr>)"

definition commit :: "8 word list \<Rightarrow> chip \<Rightarrow> chip" where
  "commit bytes st =
     (case bytes of
        hi # lo # ds \<Rightarrow>
          (let st1 = st\<lparr>pointer := cell_address hi lo\<rparr>
           in if wp_high st1 then st1 else store ds st1)
      | _ \<Rightarrow> st)"

fun fetch :: "nat \<Rightarrow> chip \<Rightarrow> chip" where
  "fetch 0 st = st"
| "fetch (Suc n) st =
     fetch n (st\<lparr>received := received st @ [cells st (pointer st)],
                pointer := pointer st + 1\<rparr>)"

text \<open>
  Modelled from the spec: the effect of one primitive call on the chip and the bus
  session. A transaction collects bytes until it is closed; closing it commits the bytes
  when the chip acknowledges; a delay lets the write cycle run down; a digital write to
  the pin wired to the write-protect line sets that line, and the sentinel pin is wired
  to nothing.
\<close>

fun chip_step :: "wiring \<Rightarrow> chip \<Rightarrow> call \<Rightarrow> chip" where
  "chip_step wr st (PinMode pin mode) = st"
| "chip_step wr st (DigitalWrite pin val) =
     (if pin = chip_wp wr \<and> pin \<noteq> None_pin then st\<lparr>wp_high := (val = HIGH)\<rparr> else st)"
| "chip_step wr st (Delay ms) = st\<lparr>busy := busy st - ms\<rparr>"
| "chip_step wr st (WireBegin b) = (if b = chip_bus wr then st\<lparr>started := True\<rparr> else st)"
| "chip_step wr st (WireEnd b) =
     (if b = chip_bus wr then st\<lparr>started := False, pending := None, received := []\<rparr> else st)"
| "chip_step wr st (BeginTransmission b target) =
     (if b = chip_bus wr then st\<lparr>pending := Some (target, [])\<rparr> else st)"
| "chip_step wr st (WireWrite b x) =
     (if b = chip_bus wr
      then (case pending st of
              None \<Rightarrow> st
            | Some (target, bytes) \<Rightarrow> st\<lparr>pending := Some (target, bytes @ [x])\<rparr>)
      else st)"
| "chip_step wr st (EndTransmission b) =
     (if b = chip_bus wr
      then (case pending st of
              None \<Rightarrow> st
            | Some (target, bytes) \<Rightarrow>
                (if acknowledges wr st target then commit bytes st else st)\<lparr>pending := None\<rparr>)
      else st)"
| "chip_step wr st (RequestFrom b target len) =
     (if b = chip_bus wr
      then (if acknowledges wr st target then fetch len (st\<lparr>received := []\<rparr>)
            else st\<lparr>received := []\<rparr>)
      else st)"
| "chip_step wr st (WireRead b) =
     (if b = chip_bus wr then st\<lparr>received := tl (received st)\<rparr> else st)"

definition chip_after :: "wiring \<Rightarrow> (16 word \<Rightarrow> 8 word) \<Rightarrow> world \<Rightarrow> chip" where
  "chip_after wr content w = foldl (chip_step wr) (power_on content) w"

definition no_acknowledge :: "8 word" where
  "no_acknowledge = 2"

text \<open>
  Modelled from the spec: the answers of the primitives when this chip is the one device
  on the bus. Closing a transaction reports zero when the chip acknowledged it, and the
  byte read answers -1 when no byte has arrived.
\<close>

definition eeprom_platform :: "wiring \<Rightarrow> (16 word \<Rightarrow> 8 word) \<Rightarrow> platform" where
  "eeprom_platform wr content =
     \<lparr>begin_result = (\<lambda>w b. True),
      end_result = (\<lambda>w b. True),
      write_result = (\<lambda>w b x.
        if b = chip_bus wr \<and> pending (chip_after wr content w) \<noteq> None then 1 else 0),
      endTransmission_result = (\<lambda>w b.
        if b = chip_bus wr
        then (case pending (chip_after wr content w) of
                None \<Rightarrow> no_acknowledge
              | Some (target, bytes) \<Rightarrow>
                  if acknowledges wr (chip_after wr content w) target then 0
                  else no_acknowledge)
        else no_acknowledge),
      requestFrom_result = (\<lambda>w b target len.
        if b = chip_bus wr \<and> acknowledges wr (chip_after wr content w) target then len else 0),
      read_result = (\<lambda>w b.
        if b = chip_bus wr
        then (case received (chip_after wr content w) of
                [] \<Rightarrow> - 1
              | x # xs \<Rightarrow> uint x)
        else - 1)\<rparr>"

subsection \<open>Observations of a call\<close>

text \<open>
  What a method returned, the device object it left, the world it left, and the primitive
  calls it added to the world \<open>w\<close> it started in.
\<close>

definition returned :: "('a \<times> MCP24LC512 \<times> world) option \<Rightarrow> 'a option" where
  "returned r = map_option fst r"

definition device_after :: "('a \<times> MCP24LC512 \<times> world) option \<Rightarrow> MCP24LC512 option" where
  "device_after r = map_option (\<lambda>(v, dev, w). dev) r"

definition world_after :: "('a \<times> MCP24LC512 \<times> world) option \<Rightarrow> world option" where
  "world_after r = map_option (\<lambda>(v, dev, w). w) r"

definition calls_made :: "world \<Rightarrow> ('a \<times> MCP24LC512 \<times> world) option \<Rightarrow> call list option" where
  "calls_made w r = map_option (drop (length w)) (world_after r)"

fun is_delay :: "call \<Rightarrow> bool" where
  "is_delay (Delay ms) = True"
| "is_delay c = False"

text \<open>
  A platform whose answers do not depend on the calls made, and a device object as
  \<^verbatim>\<open>begin()\<close> with its default arguments leaves it: for running the methods on
  concrete inputs.
\<close>

definition fixed_platform :: "bool \<Rightarrow> 8 word \<Rightarrow> int \<Rightarrow> platform" where
  "fixed_platform ok status r =
     \<lparr>begin_result = (\<lambda>w b. ok),
      end_result = (\<lambda>w b. ok),
      write_result = (\<lambda>w b x. 1),
      endTransmission_result = (\<lambda>w b. status),
      requestFrom_result = (\<lambda>w b target len. len),
      read_result = (\<lambda>w b. r)\<rparr>"

definition default_device :: MCP24LC512 where
  "default_device = \<lparr>p_address = Default, p_wp = None_pin, p_wire = Some Wire\<rparr>"

section \<open>What each method does\<close>

lemmas primitive_defs =
  pinMode_def digitalWrite_def delay_def TwoWire_begin_def TwoWire_end_def
  TwoWire_beginTransmission_def TwoWire_write_def TwoWire_endTransmission_def
  TwoWire_requestFrom_def TwoWire_read_def

lemma begin_wire_unfold:
  "begin_wire p wire address wp dev w =
     Some (begin_result p (w @ [PinMode wp OUTPUT]) wire,
           dev\<lparr>p_address := address, p_wp := wp, p_wire := Some wire\<rparr>,
           w @ [PinMode wp OUTPUT, WireBegin wire])"
  by (simp add: begin_wire_def primitive_defs)

lemma write_unfold:
  "p_wire dev = Some bus \<Longrightarrow>
   write_device p address data dev w =
     Some (endTransmission_result p
             (w @ [BeginTransmission bus (p_address dev),
                   WireWrite bus (ucast (drop_bit 8 address)),
                   WireWrite bus (ucast address),
                   WireWrite bus data]) bus = 0,
           dev,
           w @ [BeginTransmission bus (p_address dev),
                WireWrite bus (ucast (drop_bit 8 address)),
                WireWrite bus (ucast address),
                WireWrite bus data,
                EndTransmission bus])"
  by (simp add: write_device_def primitive_defs)

lemma read_unfold:
  "p_wire dev = Some bus \<Longrightarrow>
   read_device p address dev w =
     Some (word_of_int
             (read_result p
                (w @ [BeginTransmission bus (p_address dev),
                      WireWrite bus (ucast (drop_bit 8 address)),
                      WireWrite bus (ucast address),
                      EndTransmission bus,
                      RequestFrom bus (p_address dev) 1]) bus),
           dev,
           w @ [BeginTransmission bus (p_address dev),
                WireWrite bus (ucast (drop_bit 8 address)),
                WireWrite bus (ucast address),
                EndTransmission bus,
                RequestFrom bus (p_address dev) 1,
                WireRead bus])"
  by (simp add: read_device_def primitive_defs)

lemma end_device_unfold:
  "p_wire dev = Some bus \<Longrightarrow>
   end_device p dev w = Some (end_result p w bus, dev, w @ [WireEnd bus])"
  by (simp add: end_device_def primitive_defs)

lemma writeProtect_unfold:
  "writeProtect on dev w =
     Some ((), dev, w @ [DigitalWrite (p_wp dev) (if on then HIGH else LOW)])"
  by (simp add: writeProtect_def primitive_defs)

lemmas observation_defs = returned_def device_after_def world_after_def calls_made_def

lemma high_byte: "unat (ucast (drop_bit 8 (a :: 16 word)) :: 8 word) = unat a div 256"
proof -
  have "unat a < 2 ^ 16"
    using unsigned_less [of a] by simp
  then have "unat a div 256 < 256"
    by simp
  then show ?thesis
    by (simp add: unsigned_ucast_eq take_bit_eq_mod unsigned_drop_bit_eq drop_bit_eq_div
        unat_div)
qed

lemma low_byte: "unat (ucast (a :: 16 word) :: 8 word) = unat a mod 256"
  by (simp add: unsigned_ucast_eq take_bit_eq_mod)

section \<open>Initialisation\<close>

text \<open>
  C7. For every bus, address and write-protect pin, \<^verbatim>\<open>begin(bus, address, wp)\<close>
  stores the three on the device object, configures the pin as an output whatever its
  value, the sentinel 0xFF included, initialises the bus, and returns what the bus
  initialisation returned.
\<close>

theorem begin_wire_stores_configures_initialises:
  "returned (begin_wire p wire address wp dev w) =
     Some (fst (TwoWire_begin p wire (pinMode wp OUTPUT w)))
   \<and> device_after (begin_wire p wire address wp dev w) =
       Some \<lparr>p_address = address, p_wp = wp, p_wire = Some wire\<rparr>
   \<and> calls_made w (begin_wire p wire address wp dev w) =
       Some [PinMode wp OUTPUT, WireBegin wire]
   \<and> calls_made w (begin_wire p wire address None_pin dev w) =
       Some [PinMode 0xFF OUTPUT, WireBegin wire]"
  by (simp add: begin_wire_unfold observation_defs primitive_defs None_pin_def)

text \<open>
  C6. The overload \<^verbatim>\<open>begin(address, wp)\<close> is \<^verbatim>\<open>begin(Wire, address, wp)\<close>, where
  \<open>Wire\<close> is the bus object of the primary two-wire bus: the same return value, the same
  device object and the same calls to the pins and the bus.
\<close>

theorem begin_default_is_begin_on_Wire:
  "begin_default p address wp dev w = begin_wire p Wire address wp dev w
   \<and> returned (begin_default p address wp dev w) =
       returned (begin_wire p Wire address wp dev w)
   \<and> device_after (begin_default p address wp dev w) =
       Some \<lparr>p_address = address, p_wp = wp, p_wire = Some Wire\<rparr>
   \<and> calls_made w (begin_default p address wp dev w) =
       Some [PinMode wp OUTPUT, WireBegin Wire]"
  by (simp add: begin_default_def begin_wire_unfold observation_defs)

text \<open>
  C10. On a bus whose initialisation reports the outcome \<open>ok\<close> whatever was called
  before, \<^verbatim>\<open>begin\<close> returns \<open>ok\<close> for every address and every pin: two runs that
  differ in these two arguments only return the same.
\<close>

theorem begin_result_ignores_address_and_pin:
  assumes "\<And>w'. begin_result p w' wire = ok"
  shows "returned (begin_wire p wire address1 wp1 dev w) = Some ok
       \<and> returned (begin_wire p wire address1 wp1 dev w) =
           returned (begin_wire p wire address2 wp2 dev w)"
  using assms by (simp add: begin_wire_unfold observation_defs)

theorem begin_result_ignores_address_and_pin_witness:
  "(\<forall>w'. begin_result (fixed_platform False 0 0) w' Wire = False)
   \<and> returned (begin_wire (fixed_platform False 0 0) Wire 0x50 7 default_device []) = Some False
   \<and> returned (begin_wire (fixed_platform False 0 0) Wire 0x50 7 default_device []) =
       returned (begin_wire (fixed_platform False 0 0) Wire 0x51 0xFF default_device [])"
proof -
  have h: "\<And>w'. begin_result (fixed_platform False 0 0) w' Wire = False"
    by (simp add: fixed_platform_def)
  show ?thesis
    using h begin_result_ignores_address_and_pin
      [of "fixed_platform False 0 0" Wire False "0x50" 7 default_device "[]" "0x51" "0xFF", OF h]
    by blast
qed

section \<open>Write protection\<close>

text \<open>
  C9. \<^verbatim>\<open>writeProtect(on)\<close> makes one call, a digital write to the stored pin, high
  when \<open>on\<close> is true and low when it is false; it returns nothing and leaves the device
  object as it was. There is no test for the sentinel: with the pin 0xFF the same
  digital write goes to pin 0xFF, and a chip whose write-protect line is wired to no
  pin is left in the state it was in.
\<close>

theorem writeProtect_is_one_digital_write:
  "writeProtect on dev w =
     Some ((), dev, digitalWrite (p_wp dev) (if on then HIGH else LOW) w)
   \<and> calls_made w (writeProtect True dev w) = Some [DigitalWrite (p_wp dev) HIGH]
   \<and> calls_made w (writeProtect False dev w) = Some [DigitalWrite (p_wp dev) LOW]
   \<and> calls_made w (writeProtect on (dev\<lparr>p_wp := None_pin\<rparr>) w) =
       Some [DigitalWrite 0xFF (if on then HIGH else LOW)]
   \<and> map_option (chip_after (wr\<lparr>chip_wp := None_pin\<rparr>) content)
         (world_after (writeProtect on (dev\<lparr>p_wp := None_pin\<rparr>) w)) =
       Some (chip_after (wr\<lparr>chip_wp := None_pin\<rparr>) content w)"
  by (simp add: writeProtect_unfold observation_defs primitive_defs None_pin_def
      chip_after_def)

section \<open>Writing a byte\<close>

text \<open>
  C2. \<^verbatim>\<open>write(A, D)\<close> opens one transaction for the stored bus address, hands the
  bus the three bytes high byte of \<open>A\<close>, low byte of \<open>A\<close>, \<open>D\<close> in this order, and
  closes the transaction; \<^verbatim>\<open>write(0x1234, 0xAB)\<close> hands over 0x12, 0x34, 0xAB.
\<close>

theorem write_transmits_high_low_data:
  assumes "p_wire dev = Some bus"
  shows "calls_made w (write_device p address data dev w) =
           Some [BeginTransmission bus (p_address dev),
                 WireWrite bus (ucast (drop_bit 8 address)),
                 WireWrite bus (ucast address),
                 WireWrite bus data,
                 EndTransmission bus]
       \<and> unat (ucast (drop_bit 8 address) :: 8 word) = unat address div 256
       \<and> unat (ucast address :: 8 word) = unat address mod 256
       \<and> calls_made w (write_device p 0x1234 0xAB dev w) =
           Some [BeginTransmission bus (p_address dev),
                 WireWrite bus 0x12, WireWrite bus 0x34, WireWrite bus 0xAB,
                 EndTransmission bus]"
proof (intro conjI)
  show "unat (ucast (drop_bit 8 address) :: 8 word) = unat address div 256"
    by (rule high_byte)
  show "unat (ucast address :: 8 word) = unat address mod 256"
    by (rule low_byte)
qed (use assms in \<open>simp_all add: write_unfold observation_defs\<close>)

theorem write_transmits_high_low_data_witness:
  "p_wire default_device = Some Wire
   \<and> calls_made [] (write_device (fixed_platform True 0 0) 0xBEEF 0x42 default_device []) =
       Some [BeginTransmission Wire 0x50,
             WireWrite Wire 0xBE, WireWrite Wire 0xEF, WireWrite Wire 0x42,
             EndTransmission Wire]"
proof -
  have h: "p_wire default_device = Some Wire"
    by (simp add: default_device_def)
  show ?thesis
    using h write_transmits_high_low_data
      [OF h, of "[]" "fixed_platform True 0 0" "0xBEEF" "0x42"]
    by (simp add: default_device_def Default_def)
qed

text \<open>
  C3. \<^verbatim>\<open>write\<close> returns true exactly when the status that closing the transaction
  reports is zero, and false for every other status. Whatever the status, the calls made
  are those of the one transaction: nothing is sent again.
\<close>

theorem write_true_iff_status_zero:
  assumes "p_wire dev = Some bus"
  shows "(returned (write_device p address data dev w) = Some True \<longleftrightarrow>
            fst (TwoWire_endTransmission p bus
                   (w @ [BeginTransmission bus (p_address dev),
                         WireWrite bus (ucast (drop_bit 8 address)),
                         WireWrite bus (ucast address),
                         WireWrite bus data])) = 0)
       \<and> (returned (write_device p address data dev w) = Some False \<longleftrightarrow>
            fst (TwoWire_endTransmission p bus
                   (w @ [BeginTransmission bus (p_address dev),
                         WireWrite bus (ucast (drop_bit 8 address)),
                         WireWrite bus (ucast address),
                         WireWrite bus data])) \<noteq> 0)
       \<and> calls_made w (write_device p address data dev w) =
           Some [BeginTransmission bus (p_address dev),
                 WireWrite bus (ucast (drop_bit 8 address)),
                 WireWrite bus (ucast address),
                 WireWrite bus data,
                 EndTransmission bus]"
  using assms by (simp add: write_unfold observation_defs primitive_defs)

theorem write_true_iff_status_zero_witness:
  "p_wire default_device = Some Wire
   \<and> returned (write_device (fixed_platform True 0 0) 0x1234 0xAB default_device []) = Some True
   \<and> returned (write_device (fixed_platform True 2 0) 0x1234 0xAB default_device []) = Some False
   \<and> calls_made [] (write_device (fixed_platform True 2 0) 0x1234 0xAB default_device []) =
       Some [BeginTransmission Wire 0x50,
             WireWrite Wire 0x12, WireWrite Wire 0x34, WireWrite Wire 0xAB,
             EndTransmission Wire]"
proof -
  have h: "p_wire default_device = Some Wire"
    by (simp add: default_device_def)
  show ?thesis
    using h
      write_true_iff_status_zero [OF h, of "fixed_platform True 0 0" "0x1234" "0xAB" "[]"]
      write_true_iff_status_zero [OF h, of "fixed_platform True 2 0" "0x1234" "0xAB" "[]"]
    by (simp add: default_device_def Default_def fixed_platform_def primitive_defs)
qed

text \<open>
  C5. \<^verbatim>\<open>write\<close> makes five calls, all to the bus: it opens the transaction, writes
  three bytes and closes the transaction. None of them is a delay, so the wait that the
  header asks for after a write is not made by \<^verbatim>\<open>write\<close>.
\<close>

theorem write_makes_no_delay:
  assumes "p_wire dev = Some bus"
  shows "calls_made w (write_device p address data dev w) =
           Some [BeginTransmission bus (p_address dev),
                 WireWrite bus (ucast (drop_bit 8 address)),
                 WireWrite bus (ucast address),
                 WireWrite bus data,
                 EndTransmission bus]
       \<and> map_option (filter is_delay) (calls_made w (write_device p address data dev w)) =
           Some []
       \<and> map_option length (calls_made w (write_device p address data dev w)) = Some 5"
  using assms by (simp add: write_unfold observation_defs)

theorem write_makes_no_delay_witness:
  "p_wire default_device = Some Wire
   \<and> map_option (filter is_delay)
        (calls_made [Delay 9]
           (write_device (fixed_platform True 0 0) 0x0000 0x42 default_device [Delay 9])) =
       Some []"
proof -
  have h: "p_wire default_device = Some Wire"
    by (simp add: default_device_def)
  show ?thesis
    using h write_makes_no_delay
      [OF h, of "[Delay 9]" "fixed_platform True 0 0" "0x0000" "0x42"]
    by simp
qed

section \<open>Reading a byte\<close>

text \<open>
  C4. \<^verbatim>\<open>read(A)\<close> sends the two address bytes in a transaction whose closing status
  it does not look at: the outcome is the same whatever status the bus reports. It then
  requests one byte from the stored bus address and returns what the byte read of the
  bus yields, cut to eight bits: a byte comes back as it is, and the answer -1 for
  "no data" comes back as 0xFF. There is no other result, an error least of all.
\<close>

theorem read_returns_bus_read_unchecked:
  assumes "p_wire dev = Some bus"
  shows "let w5 = w @ [BeginTransmission bus (p_address dev),
                       WireWrite bus (ucast (drop_bit 8 address)),
                       WireWrite bus (ucast address),
                       EndTransmission bus,
                       RequestFrom bus (p_address dev) 1]
         in returned (read_device p address dev w) =
              Some (word_of_int (fst (TwoWire_read p bus w5)))
          \<and> world_after (read_device p address dev w) = Some (w5 @ [WireRead bus])
          \<and> read_device (p\<lparr>endTransmission_result := status\<rparr>) address dev w =
              read_device p address dev w
          \<and> (\<forall>b. fst (TwoWire_read p bus w5) = uint b \<longrightarrow>
                returned (read_device p address dev w) = Some b)
          \<and> (fst (TwoWire_read p bus w5) = - 1 \<longrightarrow>
                returned (read_device p address dev w) = Some 0xFF)"
  using assms by (simp add: read_unfold observation_defs primitive_defs Let_def)

theorem read_returns_bus_read_unchecked_witness:
  "p_wire default_device = Some Wire
   \<and> returned (read_device (fixed_platform True 0 0x5A) 0x1234 default_device []) = Some 0x5A
   \<and> returned (read_device (fixed_platform True 2 (- 1)) 0x1234 default_device []) = Some 0xFF
   \<and> world_after (read_device (fixed_platform True 2 (- 1)) 0x1234 default_device []) =
       Some [BeginTransmission Wire 0x50, WireWrite Wire 0x12, WireWrite Wire 0x34,
             EndTransmission Wire, RequestFrom Wire 0x50 1, WireRead Wire]"
proof -
  have h: "p_wire default_device = Some Wire"
    by (simp add: default_device_def)
  show ?thesis
    using h
      read_returns_bus_read_unchecked [OF h, of "[]" "0x1234" "fixed_platform True 0 0x5A"]
      read_returns_bus_read_unchecked [OF h, of "[]" "0x1234" "fixed_platform True 2 (- 1)"]
    by (simp add: default_device_def Default_def fixed_platform_def primitive_defs Let_def)
qed

section \<open>The fields between two initialisations\<close>

lemma perform_keeps_device:
  assumes "p_wire dev = Some bus"
  shows "\<exists>w'. perform p r dev w = Some (dev, w')"
  using assms
  by (cases r)
    (simp_all add: write_unfold read_unfold writeProtect_unfold end_device_unfold)

lemma perform_all_keeps_device:
  assumes "p_wire dev = Some bus"
  shows "\<exists>w'. perform_all p rs dev w = Some (dev, w')"
proof (induction rs arbitrary: w)
  case Nil
  show ?case by simp
next
  case (Cons r rs)
  from perform_keeps_device [OF assms] obtain w1 where "perform p r dev w = Some (dev, w1)"
    by blast
  with Cons.IH [of w1] show ?case
    by simp
qed

text \<open>
  C8. Only \<^verbatim>\<open>begin\<close> assigns the fields. \<^verbatim>\<open>write\<close>, \<^verbatim>\<open>read\<close>,
  \<^verbatim>\<open>writeProtect\<close> and \<^verbatim>\<open>end\<close> each leave the device object, that is the
  address, the pin and the bus binding, as they found it; so does any sequence of them,
  and the fields stay what the last \<^verbatim>\<open>begin\<close> made them.
\<close>

theorem fields_fixed_between_begins:
  assumes "p_wire dev = Some bus"
  shows "device_after (write_device p address data dev w) = Some dev
       \<and> device_after (read_device p address dev w) = Some dev
       \<and> device_after (writeProtect on dev w) = Some dev
       \<and> device_after (end_device p dev w) = Some dev
       \<and> map_option fst (perform_all p rs dev w) = Some dev"
proof -
  from perform_all_keeps_device [OF assms] obtain w' where
    "perform_all p rs dev w = Some (dev, w')"
    by blast
  then show ?thesis
    using assms
    by (simp add: write_unfold read_unfold writeProtect_unfold end_device_unfold
        device_after_def)
qed

theorem fields_fixed_between_begins_witness:
  "p_wire default_device = Some Wire
   \<and> device_after (write_device (fixed_platform True 0 7) 1 2 default_device []) =
       Some default_device
   \<and> device_after (end_device (fixed_platform True 0 7) default_device []) =
       Some default_device
   \<and> map_option fst
        (perform_all (fixed_platform True 0 7)
           [WriteProtect False, Write 1 2, Read 1, End, Read 1] default_device []) =
       Some \<lparr>p_address = 0x50, p_wp = 0xFF, p_wire = Some Wire\<rparr>"
proof -
  have h: "p_wire default_device = Some Wire"
    by (simp add: default_device_def)
  show ?thesis
    using h fields_fixed_between_begins
      [OF h, of "fixed_platform True 0 7" 1 2 "[]" True
         "[WriteProtect False, Write 1 2, Read 1, End, Read 1]"]
    by (simp add: default_device_def Default_def None_pin_def)
qed

section \<open>Reading back what was written\<close>

lemma cell_address_split: "cell_address (ucast (drop_bit 8 a)) (ucast a) = (a :: 16 word)"
  unfolding cell_address_def
  by (rule bit_word_eqI) (auto simp add: bit_simps)

lemma chip_after_append:
  "chip_after wr content (w @ cs) = foldl (chip_step wr) (chip_after wr content w) cs"
  by (simp add: chip_after_def)

text \<open>
  The two conditions of the round trip are needed. Read before the write cycle is over,
  the chip does not answer and the driver returns 0xFF; written while the write-protect
  line is high, the cell keeps its content though \<^verbatim>\<open>write\<close> returns true.
\<close>

lemma read_during_write_cycle:
  assumes "p_wire dev = Some (chip_bus wr)"
    and "p_address dev = chip_address wr"
    and "started (chip_after wr content w)"
    and "busy (chip_after wr content w) = 0"
    and "\<not> wp_high (chip_after wr content w)"
    and "ms < write_cycle_ms"
  shows "write_wait_read (eeprom_platform wr content) address data ms dev w =
           Some (True, 0xFF)"
  using assms
  by (simp add: write_wait_read_def write_unfold read_unfold delay_def
      eeprom_platform_def chip_after_append acknowledges_def commit_def)

lemma write_while_protected:
  assumes "p_wire dev = Some (chip_bus wr)"
    and "p_address dev = chip_address wr"
    and "started (chip_after wr content w)"
    and "busy (chip_after wr content w) = 0"
    and "wp_high (chip_after wr content w)"
  shows "write_wait_read (eeprom_platform wr content) address data ms dev w =
           Some (True, cells (chip_after wr content w) address)"
  using assms
  by (simp add: write_wait_read_def write_unfold read_unfold delay_def
      eeprom_platform_def chip_after_append acknowledges_def commit_def cell_address_split)

text \<open>
  C1. On the chip as the specification describes it: when the bus is initialised, the
  chip is at the device's bus address and is not in a write cycle, and the write-protect
  line is low, then \<^verbatim>\<open>write(A, D)\<close>, a delay of at least 5 ms and \<^verbatim>\<open>read(A)\<close>
  give true and \<open>D\<close>, for every address \<open>A\<close> and byte \<open>D\<close>.
\<close>

theorem write_wait_read_returns_data:
  assumes "p_wire dev = Some (chip_bus wr)"
    and "p_address dev = chip_address wr"
    and "started (chip_after wr content w)"
    and "busy (chip_after wr content w) = 0"
    and "\<not> wp_high (chip_after wr content w)"
    and "write_cycle_ms \<le> ms"
  shows "write_wait_read (eeprom_platform wr content) address data ms dev w =
           Some (True, data)"
  using assms
  by (simp add: write_wait_read_def write_unfold read_unfold delay_def
      eeprom_platform_def chip_after_append acknowledges_def commit_def cell_address_split)

theorem write_wait_read_returns_data_witness:
  "p_wire default_device = Some (chip_bus \<lparr>chip_bus = Wire, chip_address = 0x50, chip_wp = 0xFF\<rparr>)
   \<and> started (chip_after \<lparr>chip_bus = Wire, chip_address = 0x50, chip_wp = 0xFF\<rparr>
        (\<lambda>a. 0xFF) [PinMode 0xFF OUTPUT, WireBegin Wire])
   \<and> write_cycle_ms \<le> 5
   \<and> write_wait_read
        (eeprom_platform \<lparr>chip_bus = Wire, chip_address = 0x50, chip_wp = 0xFF\<rparr> (\<lambda>a. 0xFF))
        0x1234 0xAB 5 default_device [PinMode 0xFF OUTPUT, WireBegin Wire] =
       Some (True, 0xAB)"
proof -
  let ?wr = "\<lparr>chip_bus = Wire, chip_address = 0x50, chip_wp = 0xFF\<rparr>"
  let ?w = "[PinMode 0xFF OUTPUT, WireBegin Wire]"
  have h1: "p_wire default_device = Some (chip_bus ?wr)"
    by (simp add: default_device_def)
  have h2: "p_address default_device = chip_address ?wr"
    by (simp add: default_device_def Default_def)
  have h3: "started (chip_after ?wr (\<lambda>a. 0xFF) ?w)"
    by (simp add: chip_after_def power_on_def)
  have h4: "busy (chip_after ?wr (\<lambda>a. 0xFF) ?w) = 0"
    by (simp add: chip_after_def power_on_def)
  have h5: "\<not> wp_high (chip_after ?wr (\<lambda>a. 0xFF) ?w)"
    by (simp add: chip_after_def power_on_def)
  have h6: "write_cycle_ms \<le> 5"
    by (simp add: write_cycle_ms_def)
  show ?thesis
    using h1 h3 h6 write_wait_read_returns_data [OF h1 h2 h3 h4 h5 h6, of "0x1234" "0xAB"]
    by simp
qed

end
